theory Spec2Isabelle
  imports Complex_Main "HOL-Library.AList" "HOL-Library.Sublist" "HOL-Library.Word"
begin

section \<open>Ampel-plots: \<open>ampel/plot/utils.py\<close>\<close>

text \<open>
  A shallow embedding of the plot utilities: the render envelope
  (\<open>mplfig_to_svg_dict\<close>, \<open>decompress_svg_dict\<close>), the rasteriser (\<open>to_png\<close>), the
  composer (\<open>stack_svg\<close>) and the rescaler (\<open>rescale\<close>).

  The module is glue around libraries that are not part of the repository (matplotlib,
  svgutils, cairosvg, IPython, \<open>ampel.util.compression\<close>). A call into one of them whose
  result the module only passes on is a parameter of the model (\<open>savefig\<close>, \<open>fcompress\<close>,
  \<open>decompress_str\<close>, \<open>svg2png\<close>, \<open>fromstring\<close>); what the module itself computes on
  strings, numbers and dictionaries is written out.
\<close>

subsection \<open>Python values\<close>

type_synonym bytes = "8 word list"

text \<open>
  A Python \<open>str\<close> is the \<open>string\<close> of its UTF-8 bytes, so \<open>s.encode('utf8')\<close> and
  \<open>str(b, "utf-8")\<close> only change the type.
\<close>

definition encode_utf8 :: "string \<Rightarrow> bytes" where
  "encode_utf8 s = map of_char s"

definition decode_utf8 :: "bytes \<Rightarrow> string" where
  "decode_utf8 b = map (\<lambda>w. char_of (unat w)) b"

text \<open>
  The values an \<open>SVGRecord\<close> holds, and the other values a caller can hand to
  \<open>decompress_svg_dict\<close>. A \<open>dict\<close> is an association list in insertion order;
  \<open>d[k] = v\<close> is \<open>AList.update k v d\<close> and \<open>d[k]\<close> is \<open>map_of d k\<close>.
\<close>

datatype pyval =
    PyNone
  | PyInt int
  | PyStr string
  | PyBytes bytes
  | PyList "pyval list"
  | PyDict "(string \<times> pyval) list"

type_synonym pydict = "(string \<times> pyval) list"

datatype error =
    ValueError string
  | KeyError string
  | IndexError string
  | AttributeError string
  | TypeError string
  | ExternalError string
  | OutsideModel string

fun is_dict :: "pyval \<Rightarrow> bool" where
  "is_dict (PyDict d) = True"
| "is_dict v = False"

subsection \<open>Render envelope\<close>

text \<open>
  The matplotlib figure, as far as the function touches it: \<open>set_size_inches\<close> and
  \<open>suptitle\<close> change it, \<open>savefig\<close> (a parameter) turns it into SVG text.
\<close>

record 'a mplfig =
  size_inches :: "(int \<times> int) option"
  suptitle :: "string option"
  artists :: 'a

text \<open>Truthiness of an \<open>Optional[str]\<close>: \<open>None\<close> and \<open>''\<close> are false.\<close>

fun truthy_str :: "string option \<Rightarrow> bool" where
  "truthy_str None = False"
| "truthy_str (Some s) = (s \<noteq> [])"

text \<open>Truthiness of an \<open>Optional[List[str]]\<close>: \<open>None\<close> and \<open>[]\<close> are false.\<close>

fun truthy_list :: "string list option \<Rightarrow> bool" where
  "truthy_list None = False"
| "truthy_list (Some xs) = (xs \<noteq> [])"

text \<open>Truthiness of an \<open>Optional[bool]\<close>.\<close>

fun truthy_bool :: "bool option \<Rightarrow> bool" where
  "truthy_bool None = False"
| "truthy_bool (Some b) = b"

text \<open>
  Lines 57 to 65: the figure as it is when \<open>savefig\<close> writes it into \<open>imgdata\<close>.
\<close>

definition sized_titled ::
  "'a mplfig \<Rightarrow> string option \<Rightarrow> int option \<Rightarrow> int option \<Rightarrow> bool option \<Rightarrow> 'a mplfig" where
  "sized_titled mpl_fig title width height fig_include_title =
     (let f1 = (case (width, height) of
                  (Some w, Some h) \<Rightarrow> mpl_fig\<lparr>size_inches := Some (w, h)\<rparr>
                | _ \<Rightarrow> mpl_fig);
          f2 = (if truthy_str title \<and> truthy_bool fig_include_title
                then f1\<lparr>suptitle := title\<rparr> else f1)
      in f2)"

text \<open>
  \<open>mplfig_to_svg_dict\<close>. The logger call and \<open>plt.pyplot.close\<close> do not reach the
  returned record and are left out; \<open>savefig\<close> and \<open>fcompress\<close> are the renderer and the
  compression collaborator.
\<close>

definition mplfig_to_svg_dict ::
  "('a mplfig \<Rightarrow> string) \<Rightarrow> (bytes \<Rightarrow> string \<Rightarrow> bytes) \<Rightarrow>
   'a mplfig \<Rightarrow> string \<Rightarrow> string option \<Rightarrow> string list option \<Rightarrow> int \<Rightarrow>
   int option \<Rightarrow> int option \<Rightarrow> bool option \<Rightarrow> pydict" where
  "mplfig_to_svg_dict savefig fcompress mpl_fig file_name title tags compress
       width height fig_include_title =
     (let imgdata = savefig (sized_titled mpl_fig title width height fig_include_title);
          ret0 = [(''name'', PyStr file_name)];
          ret1 = (if truthy_list tags
                  then AList.update ''tag'' (PyList (map PyStr (the tags))) ret0
                  else ret0);
          ret2 = (if truthy_str title
                  then AList.update ''title'' (PyStr (the title)) ret1
                  else ret1)
      in if compress = 0 then AList.update ''svg'' (PyStr imgdata) ret2
         else
           let ret3 = AList.update ''svg''
                        (PyBytes (fcompress (encode_utf8 imgdata) file_name)) ret2
           in if compress = 2 then AList.update ''svg_str'' (PyStr imgdata) ret3
              else ret3)"

text \<open>
  \<open>decompress_svg_dict\<close>. The argument is any Python value; the dictionary is mutated
  in place and returned, which the model renders by returning the updated dictionary.
  \<open>svg_dict['svg']\<close> on a missing key raises \<open>KeyError\<close>.
\<close>

definition decompress_svg_dict ::
  "(bytes \<Rightarrow> error + string) \<Rightarrow> pyval \<Rightarrow> error + pyval" where
  "decompress_svg_dict decompress_str svg_dict =
     (case svg_dict of
        PyDict d \<Rightarrow>
          (case map_of d ''svg'' of
             None \<Rightarrow> Inl (KeyError ''svg'')
           | Some (PyBytes b) \<Rightarrow>
               (case decompress_str b of
                  Inl e \<Rightarrow> Inl e
                | Inr s \<Rightarrow> Inr (PyDict (AList.update ''svg'' (PyStr s) d)))
           | Some v \<Rightarrow> Inr (PyDict d))
      | _ \<Rightarrow> Inl (ValueError ''Parameter svg_dict must be an instance of dict''))"

text \<open>The two shapes of a record's \<open>svg\<close> value.\<close>

definition svg_is_str :: "pydict \<Rightarrow> bool" where
  "svg_is_str d = (case map_of d ''svg'' of Some (PyStr s) \<Rightarrow> True | _ \<Rightarrow> False)"

definition svg_is_bytes :: "pydict \<Rightarrow> bool" where
  "svg_is_bytes d = (case map_of d ''svg'' of Some (PyBytes b) \<Rightarrow> True | _ \<Rightarrow> False)"

subsection \<open>Python strings and floats\<close>

text \<open>
  \<open>s.replace(old, new)\<close>: the occurrences of \<open>old\<close> are replaced from left to right
  without overlap; an empty \<open>old\<close> matches before every character and at the end.
\<close>

fun py_replace :: "string \<Rightarrow> string \<Rightarrow> string \<Rightarrow> string" where
  "py_replace old new [] = (if old = [] then new else [])"
| "py_replace old new (c # cs) =
     (if old = [] then new @ c # py_replace old new cs
      else if prefix old (c # cs)
           then new @ py_replace old new (drop (length old) (c # cs))
           else c # py_replace old new cs)"

text \<open>\<open>s.split(sep)\<close> for a separator of one character; the result is never empty.\<close>

fun py_split :: "char \<Rightarrow> string \<Rightarrow> string list" where
  "py_split sep [] = [[]]"
| "py_split sep (c # cs) =
     (if c = sep then [] # py_split sep cs
      else (case py_split sep cs of
              [] \<Rightarrow> [[c]]
            | y # ys \<Rightarrow> (c # y) # ys))"

text \<open>\<open>xs[0]\<close>, which raises \<open>IndexError\<close> on an empty list.\<close>

definition index0 :: "'a list \<Rightarrow> error + 'a" where
  "index0 xs = (case xs of [] \<Rightarrow> Inl (IndexError ''list index out of range'') | x # _ \<Rightarrow> Inr x)"

definition is_digit :: "char \<Rightarrow> bool" where
  "is_digit c = (c \<in> set ''0123456789'')"

definition digit_val :: "char \<Rightarrow> nat" where
  "digit_val c = of_char c - 48"

definition digit_char :: "nat \<Rightarrow> char" where
  "digit_char d = ''0123456789'' ! (d mod 10)"

definition nat_of_digits :: "string \<Rightarrow> nat" where
  "nat_of_digits ds = foldl (\<lambda>a c. 10 * a + digit_val c) 0 ds"

fun nat_str :: "nat \<Rightarrow> string" where
  "nat_str n =
     (if n < 10 then [digit_char n] else nat_str (n div 10) @ [digit_char (n mod 10)])"

declare nat_str.simps [simp del]

text \<open>
  A Python \<open>float\<close> is modelled by the rational number it stands for: sums, products and
  comparisons are exact, the rounding of binary64 is not modelled, and there is no
  infinity, no NaN and no negative zero. The model and CPython agree wherever every value involved is a
  binary64 number, which holds for the integers below \<open>2 ^ 53\<close> and their halves,
  quarters and eighths, the values at which the functions are evaluated below.

  \<open>float(s)\<close> is modelled on the plain decimal literals: an optional sign, digits, and
  optionally a point and more digits. On a string that has a character no float literal
  contains (such as the \<open>p\<close> and \<open>x\<close> of a unit), and on the empty string, CPython raises
  \<open>ValueError\<close>, and so does the model. On the other strings (exponents, underscores,
  surrounding blanks, \<open>inf\<close>, \<open>nan\<close>, digits beyond ASCII) the model does not decide and
  returns \<open>OutsideModel\<close>.
\<close>

definition float_alphabet :: "char \<Rightarrow> bool" where
  "float_alphabet c =
     (is_digit c \<or> c \<in> set ''+-._eEiInNfFtTyYaA''
      \<or> c \<in> set [CHR 0x20, CHR 0x09, CHR 0x0A, CHR 0x0B, CHR 0x0C, CHR 0x0D,
                  CHR 0x1C, CHR 0x1D, CHR 0x1E, CHR 0x1F]
      \<or> of_char c \<ge> (128::nat))"

definition float_reject :: "string \<Rightarrow> error" where
  "float_reject s =
     (if s = [] \<or> \<not> list_all float_alphabet s then ValueError s else OutsideModel s)"

definition py_float :: "string \<Rightarrow> error + rat" where
  "py_float s =
     (let (sgn, body) = (case s of
                           c # r \<Rightarrow> if c = CHR ''-'' then (- 1, r)
                                    else if c = CHR ''+'' then (1, r) else (1, s)
                         | [] \<Rightarrow> (1, s));
          ip = takeWhile is_digit body;
          rest = dropWhile is_digit body
      in case rest of
           [] \<Rightarrow> if ip = [] then Inl (float_reject s)
                 else Inr (sgn * of_nat (nat_of_digits ip))
         | c # fp \<Rightarrow>
             if c = CHR ''.'' \<and> list_all is_digit fp \<and> (ip \<noteq> [] \<or> fp \<noteq> [])
             then Inr (sgn * (of_nat (nat_of_digits ip)
                              + of_nat (nat_of_digits fp) / 10 ^ length fp))
             else Inl (float_reject s))"

text \<open>
  \<open>str(x)\<close> of a float: the integer part, a point, and the decimal digits of the
  fraction, \<open>0\<close> when there are none (so \<open>str(180.0)\<close> is \<open>180.0\<close>). CPython prints
  the shortest digits that read back as the same binary64 number and switches to an
  exponent from \<open>1e16\<close> on and below \<open>1e-4\<close>; the model prints up to 17 digits of the
  exact fraction and no exponent.
\<close>

fun frac_digits :: "nat \<Rightarrow> rat \<Rightarrow> string" where
  "frac_digits 0 r = []"
| "frac_digits (Suc n) r =
     (if r = 0 then []
      else let d = nat \<lfloor>r * 10\<rfloor> in digit_char d # frac_digits n (r * 10 - of_nat d))"

definition float_str :: "rat \<Rightarrow> string" where
  "float_str q =
     (let a = \<bar>q\<bar>; ds = frac_digits 17 (a - of_int \<lfloor>a\<rfloor>)
      in (if q < 0 then ''-'' else []) @ nat_str (nat \<lfloor>a\<rfloor>) @ ''.''
         @ (if ds = [] then ''0'' else ds))"

text \<open>A number that is an \<open>int\<close> literal of the source or a \<open>float\<close>.\<close>

datatype pynum = PyI int | PyF rat

fun num_val :: "pynum \<Rightarrow> rat" where
  "num_val (PyI i) = of_int i"
| "num_val (PyF q) = q"

text \<open>\<open>"%s" % x\<close> for an attribute value, which is a string or \<open>None\<close>.\<close>

fun pct_s :: "string option \<Rightarrow> string" where
  "pct_s None = ''None''"
| "pct_s (Some s) = s"

subsection \<open>SVG documents\<close>

text \<open>
  The document model of svgutils, as far as the module uses it. A figure is its root
  \<open>svg\<close> element: the attributes (\<open>root.get\<close>, \<open>root.set\<close>) and the children. A child
  is a node of a parsed document (opaque, of type \<open>'x\<close>), a group (\<open>getroot()\<close> wraps
  the children of a root into one, \<open>compose.Element\<close> wraps it again) with the
  transforms put on it, the latest first, or the path that \<open>compose.Line\<close> draws
  through its points.
\<close>

datatype transform = MoveTo pynum pynum | ScaleXY pynum pynum

datatype 'x node =
    Parsed 'x
  | Group "'x node list" "transform list"
  | Line "(pynum \<times> pynum) list"

record 'x svgfigure =
  attrib :: "(string \<times> string) list"
  children :: "'x node list"

definition root_get :: "'x svgfigure \<Rightarrow> string \<Rightarrow> string option" where
  "root_get fig k = map_of (attrib fig) k"

definition root_set :: "string \<Rightarrow> string \<Rightarrow> 'x svgfigure \<Rightarrow> 'x svgfigure" where
  "root_set k v fig = fig\<lparr>attrib := AList.update k v (attrib fig)\<rparr>"

definition append_node :: "'x node \<Rightarrow> 'x svgfigure \<Rightarrow> 'x svgfigure" where
  "append_node n fig = fig\<lparr>children := children fig @ [n]\<rparr>"

text \<open>\<open>fig.get_size()\<close>: the \<open>width\<close> and \<open>height\<close> attributes, \<open>None\<close> when absent.\<close>

definition get_size :: "'x svgfigure \<Rightarrow> string option \<times> string option" where
  "get_size fig = (root_get fig ''width'', root_get fig ''height'')"

definition getroot :: "'x svgfigure \<Rightarrow> 'x node" where
  "getroot fig = Group (children fig) []"

fun moveto :: "pynum \<Rightarrow> pynum \<Rightarrow> 'x node \<Rightarrow> 'x node" where
  "moveto x y (Group ns ts) = Group ns (MoveTo x y # ts)"
| "moveto x y n = n"

fun scale_xy :: "pynum \<Rightarrow> pynum \<Rightarrow> 'x node \<Rightarrow> 'x node" where
  "scale_xy x y (Group ns ts) = Group ns (ScaleXY x y # ts)"
| "scale_xy x y n = n"

text \<open>\<open>SVGFigure()\<close>: an empty document.\<close>

definition SVGFigure :: "'x svgfigure" where
  "SVGFigure = \<lparr>attrib = [(''version'', ''1.1'')], children = []\<rparr>"

text \<open>Sequencing of steps that may raise.\<close>

definition bind_err :: "error + 'a \<Rightarrow> ('a \<Rightarrow> error + 'b) \<Rightarrow> error + 'b" where
  "bind_err m f = (case m of Inl e \<Rightarrow> Inl e | Inr x \<Rightarrow> f x)"

subsection \<open>Composer\<close>

text \<open>
  \<open>float(s.replace("pt", ""))\<close> for a size \<open>s\<close> read by \<open>get_size\<close>; on \<open>None\<close> the
  method call raises \<open>AttributeError\<close>.
\<close>

definition pt_float :: "string option \<Rightarrow> error + rat" where
  "pt_float so =
     (case so of
        None \<Rightarrow> Inl (AttributeError ''replace'')
      | Some s \<Rightarrow> py_float (py_replace ''pt'' [] s))"

text \<open>
  Lines 144 to 174 of \<open>stack_svg\<close>, on the two parsed figures. The result is the
  figure that \<open>to_str\<close> serialises. Where a size string is written into the new
  figure the four conversions have succeeded, so the string is not \<open>None\<close>.
\<close>

definition stack_figs ::
  "'x svgfigure \<Rightarrow> 'x svgfigure \<Rightarrow> bool \<Rightarrow> bool \<Rightarrow> error + 'x svgfigure" where
  "stack_figs fig1 fig2 horizontally separator =
     (let (str_w1, str_h1) = get_size fig1;
          (str_w2, str_h2) = get_size fig2
      in bind_err (pt_float str_w1) (\<lambda>w1.
         bind_err (pt_float str_h1) (\<lambda>h1.
         bind_err (pt_float str_w2) (\<lambda>w2.
         bind_err (pt_float str_h2) (\<lambda>h2.
           let el1 = getroot fig1;
               el2 = getroot fig2;
               fig = SVGFigure;
               (el2, fig) =
                 (if horizontally
                  then (moveto (PyF w1) (PyI 0) el2,
                        root_set ''width'' (float_str (w1 + w2) @ ''pt'')
                          (root_set ''height'' (the (if h1 > h2 then str_h1 else str_h2))
                             fig))
                  else (moveto (PyI 0) (PyF h1) el2,
                        root_set ''width'' (the (if w1 > w2 then str_w1 else str_w2))
                          (root_set ''height'' (float_str (h1 + h2) @ ''pt'') fig)));
               fig = root_set ''viewBox''
                       (''0 0 '' @ pct_s (root_get fig ''width'') @ '' ''
                          @ pct_s (root_get fig ''height'')) fig;
               fig = append_node el1 fig;
               fig = append_node el2 fig;
               fig = (if separator
                      then (if horizontally
                            then append_node
                                   (Line [(PyF w1, PyI 0),
                                          (PyF w1, PyF (if h1 > h2 then h1 else h2))]) fig
                            else append_node
                                   (Line [(PyI 0, PyF h1),
                                          (PyF (if w1 > w2 then w1 else w2), PyF h1)]) fig)
                      else fig)
           in Inr fig)))))"

text \<open>
  \<open>stack_svg\<close>: \<open>fromstring\<close> is the library's parser, whose failure is passed on, and
  \<open>to_str\<close> its serialiser.
\<close>

definition stack_svg ::
  "(string \<Rightarrow> error + 'x svgfigure) \<Rightarrow> ('x svgfigure \<Rightarrow> bytes) \<Rightarrow>
   string \<Rightarrow> string \<Rightarrow> bool \<Rightarrow> bool \<Rightarrow> error + bytes" where
  "stack_svg fromstring to_str svg1 svg2 horizontally separator =
     bind_err (fromstring svg1) (\<lambda>fig1.
     bind_err (fromstring svg2) (\<lambda>fig2.
     bind_err (stack_figs fig1 fig2 horizontally separator) (\<lambda>fig.
       Inr (to_str fig))))"

text \<open>
  What a result declares: an attribute of the figure, \<open>None\<close> when the attribute is
  absent or the call raised; and the sizes two figures declare in points.
\<close>

fun attr_of :: "string \<Rightarrow> error + 'x svgfigure \<Rightarrow> string option" where
  "attr_of k (Inr fig) = root_get fig k"
| "attr_of k (Inl e) = None"

definition declares_pt :: "'x svgfigure \<Rightarrow> rat \<Rightarrow> rat \<Rightarrow> bool" where
  "declares_pt fig w h =
     (pt_float (root_get fig ''width'') = Inr w \<and> pt_float (root_get fig ''height'') = Inr h)"

text \<open>The two documents of the scenario, \<open>100pt\<close> by \<open>50pt\<close> and \<open>80pt\<close> by \<open>60pt\<close>.\<close>

definition doc_100x50 :: "string svgfigure" where
  "doc_100x50 =
     \<lparr>attrib = [(''width'', ''100pt''), (''height'', ''50pt'')],
      children = [Parsed ''rect'']\<rparr>"

definition doc_80x60 :: "string svgfigure" where
  "doc_80x60 =
     \<lparr>attrib = [(''width'', ''80pt''), (''height'', ''60pt'')],
      children = [Parsed ''circle'']\<rparr>"

text \<open>The lines among the children of a figure, and of a result.\<close>

fun is_line :: "'x node \<Rightarrow> bool" where
  "is_line (Line ps) = True"
| "is_line n = False"

definition lines_of :: "'x svgfigure \<Rightarrow> 'x node list" where
  "lines_of fig = filter is_line (children fig)"

fun result_lines :: "error + 'x svgfigure \<Rightarrow> 'x node list option" where
  "result_lines (Inr fig) = Some (lines_of fig)"
| "result_lines (Inl e) = None"

text \<open>A parser and a serialiser to run \<open>stack_svg\<close> on the scenario.\<close>

definition parse_scenario :: "string \<Rightarrow> error + string svgfigure" where
  "parse_scenario s =
     (if s = ''doc1'' then Inr doc_100x50
      else if s = ''doc2'' then Inr doc_80x60
      else Inl (ExternalError ''XMLSyntaxError''))"

definition attrs_to_str :: "string svgfigure \<Rightarrow> bytes" where
  "attrs_to_str fig = encode_utf8 (concat (map (\<lambda>(k, v). k @ ''='' @ v @ '';'') (attrib fig)))"

subsection \<open>Rescaler\<close>

text \<open>
  \<open>float(s.split('.')[0])\<close> for a size \<open>s\<close> read from \<open>original.width\<close> or
  \<open>original.height\<close>, which are the root's attributes; on \<open>None\<close> the method call
  raises \<open>AttributeError\<close>.
\<close>

definition split_float :: "string option \<Rightarrow> error + rat" where
  "split_float so =
     (case so of
        None \<Rightarrow> Inl (AttributeError ''split'')
      | Some s \<Rightarrow> bind_err (index0 (py_split (CHR ''.'') s)) py_float)"



definition SVGFigure_sized ::
  "(rat \<Rightarrow> string option) \<Rightarrow> rat \<Rightarrow> rat \<Rightarrow> 'x svgfigure" where
  "SVGFigure_sized size_attr width height =
     (let fig = SVGFigure;
          fig = (case size_attr width of None \<Rightarrow> fig | Some s \<Rightarrow> root_set ''width'' s fig);
          fig = (case size_attr height of None \<Rightarrow> fig | Some s \<Rightarrow> root_set ''height'' s fig)
      in fig)"

text \<open>
  Lines 185 to 200 of \<open>rescale\<close>, on the parsed figure; the result is the figure that
  \<open>to_str\<close> serialises.
\<close>

definition rescale_fig :: "(rat \<Rightarrow> string option) \<Rightarrow> 'x svgfigure \<Rightarrow> rat \<Rightarrow> error + 'x svgfigure" where
  "rescale_fig size_attr original scale =
     bind_err (split_float (root_get original ''width'')) (\<lambda>original_width.
     bind_err (split_float (root_get original ''height'')) (\<lambda>original_height.
       let scaled = SVGFigure_sized size_attr (original_width * scale) (original_height * scale);
           svg_st = getroot original;
           svg_st = scale_xy (PyF scale) (PyF scale) svg_st;
           scaled = append_node svg_st scaled
       in Inr scaled))"

text \<open>\<open>rescale\<close>, between the library's parser and serialiser.\<close>

definition rescale ::
  "(string \<Rightarrow> error + 'x svgfigure) \<Rightarrow> ('x svgfigure \<Rightarrow> bytes) \<Rightarrow> (rat \<Rightarrow> string option) \<Rightarrow>
   string \<Rightarrow> rat \<Rightarrow> error + string" where
  "rescale fromstring to_str size_attr svg scale =
     bind_err (fromstring svg) (\<lambda>original.
     bind_err (rescale_fig size_attr original scale) (\<lambda>scaled.
       Inr (decode_utf8 (to_str scaled))))"

text \<open>
  \<open>rescale\<close> with \<open>k\<close> and then \<open>rescale\<close> of the result with \<open>1 / k\<close>, on figures: the
  text that goes from the first call to the second is the first figure serialised and
  parsed again, which gives its attributes back.
\<close>

definition rescale_twice :: "(rat \<Rightarrow> string option) \<Rightarrow> 'x svgfigure \<Rightarrow> rat \<Rightarrow> error + 'x svgfigure" where
  "rescale_twice size_attr original k =
     bind_err (rescale_fig size_attr original k) (\<lambda>scaled.
       rescale_fig size_attr scaled (1 / k))"




definition doc_600px :: "string svgfigure" where
  "doc_600px =
     \<lparr>attrib = [(''width'', ''600px''), (''height'', ''400px'')],
      children = [Parsed ''rect'']\<rparr>"



subsection \<open>Rasteriser\<close>

text \<open>
  \<open>base64.b64encode\<close> (RFC 4648, standard alphabet, \<open>=\<close> padding): three bytes give
  four characters of six bits each.
\<close>

definition b64_alphabet :: string where
  "b64_alphabet = ''ABCDEFGHIJKLMNOPQRSTUVWXYZabcdefghijklmnopqrstuvwxyz0123456789+/''"

definition b64_char :: "nat \<Rightarrow> 8 word" where
  "b64_char n = of_char (b64_alphabet ! (n mod 64))"

fun b64encode :: "bytes \<Rightarrow> bytes" where
  "b64encode [] = []"
| "b64encode [a] =
     [b64_char (unat a div 4), b64_char (unat a mod 4 * 16), 61, 61]"
| "b64encode [a, b] =
     [b64_char (unat a div 4), b64_char (unat a mod 4 * 16 + unat b div 16),
      b64_char (unat b mod 16 * 4), 61]"
| "b64encode (a # b # c # rest) =
     [b64_char (unat a div 4), b64_char (unat a mod 4 * 16 + unat b div 16),
      b64_char (unat b mod 16 * 4 + unat c div 64), b64_char (unat c mod 64)]
     @ b64encode rest"

text \<open>\<open>IPython.display.Image(data).data\<close> on a byte string is that byte string.\<close>

definition Image_data :: "bytes \<Rightarrow> bytes" where
  "Image_data b = b"

definition img_prefix :: string where
  "img_prefix = ''<img src='' @ [CHR 0x22] @ ''data:image/png;base64,''"

definition img_suffix :: string where
  "img_suffix = [CHR 0x22] @ ''>''"

text \<open>
  \<open>to_png\<close>; \<open>svg2png\<close> is cairosvg's rasteriser, whose failure is passed on.
\<close>

definition to_png :: "(string \<Rightarrow> int \<Rightarrow> error + bytes) \<Rightarrow> string \<Rightarrow> int \<Rightarrow> error + string" where
  "to_png svg2png content dpi =
     (case svg2png content dpi of
        Inl e \<Rightarrow> Inl e
      | Inr png \<Rightarrow>
          Inr (img_prefix @ decode_utf8 (b64encode (Image_data png)) @ img_suffix))"

section \<open>Properties of the render envelope\<close>

lemma map_of_update_same: "map_of (AList.update k v al) k = Some v"
  by (simp add: update_conv')

lemma map_of_update_other: "k' \<noteq> k \<Longrightarrow> map_of (AList.update k v al) k' = map_of al k'"
  by (simp add: update_conv')

text \<open>
  C6: with \<open>compress = 0\<close> the record's \<open>svg\<close> is the raw SVG string; with
  \<open>compress = 1\<close> it is the compressed bytes and there is no \<open>svg_str\<close> key; with
  \<open>compress = 2\<close> it is the compressed bytes and \<open>svg_str\<close> is the uncompressed text.
\<close>

theorem mplfig_to_svg_dict_modes:
  "map_of (mplfig_to_svg_dict savefig fc fig fn t tags 0 w h fit) ''svg''
     = Some (PyStr (savefig (sized_titled fig t w h fit)))
   \<and> map_of (mplfig_to_svg_dict savefig fc fig fn t tags 1 w h fit) ''svg''
     = Some (PyBytes (fc (encode_utf8 (savefig (sized_titled fig t w h fit))) fn))
   \<and> map_of (mplfig_to_svg_dict savefig fc fig fn t tags 1 w h fit) ''svg_str'' = None
   \<and> map_of (mplfig_to_svg_dict savefig fc fig fn t tags 2 w h fit) ''svg''
     = Some (PyBytes (fc (encode_utf8 (savefig (sized_titled fig t w h fit))) fn))
   \<and> map_of (mplfig_to_svg_dict savefig fc fig fn t tags 2 w h fit) ''svg_str''
     = Some (PyStr (savefig (sized_titled fig t w h fit)))"
  by (simp add: mplfig_to_svg_dict_def Let_def update_conv')

text \<open>
  C10: no value of \<open>compress\<close> is rejected. For every \<open>compress\<close> other than \<open>0\<close> the
  record's \<open>svg\<close> is the compressed bytes, the key \<open>svg_str\<close> is present exactly when
  \<open>compress = 2\<close>, and every value other than \<open>0\<close> and \<open>2\<close> gives the record of mode \<open>1\<close>.
\<close>

theorem mplfig_to_svg_dict_any_mode:
  "compress \<noteq> 0 \<Longrightarrow>
     map_of (mplfig_to_svg_dict savefig fc fig fn t tags compress w h fit) ''svg''
       = Some (PyBytes (fc (encode_utf8 (savefig (sized_titled fig t w h fit))) fn))
     \<and> ((\<exists>v. map_of (mplfig_to_svg_dict savefig fc fig fn t tags compress w h fit) ''svg_str''
             = Some v) \<longleftrightarrow> compress = 2)
     \<and> (compress \<noteq> 2 \<longrightarrow>
          mplfig_to_svg_dict savefig fc fig fn t tags compress w h fit
            = mplfig_to_svg_dict savefig fc fig fn t tags 1 w h fit)"
  by (simp add: mplfig_to_svg_dict_def Let_def update_conv')

theorem mplfig_to_svg_dict_any_mode_witness:
  "(3::int) \<noteq> 0
   \<and> map_of (mplfig_to_svg_dict (\<lambda>f. ''<svg/>'') (\<lambda>b n. rev b)
         \<lparr>size_inches = None, suptitle = None, artists = ()\<rparr>
         ''plot.svg'' None None 3 None None None) ''svg''
       = Some (PyBytes (rev (encode_utf8 ''<svg/>'')))
   \<and> map_of (mplfig_to_svg_dict (\<lambda>f. ''<svg/>'') (\<lambda>b n. rev b)
         \<lparr>size_inches = None, suptitle = None, artists = ()\<rparr>
         ''plot.svg'' None None 3 None None None) ''svg_str'' = None
   \<and> mplfig_to_svg_dict (\<lambda>f. ''<svg/>'') (\<lambda>b n. rev b)
         \<lparr>size_inches = None, suptitle = None, artists = ()\<rparr>
         ''plot.svg'' None None 3 None None None
       = mplfig_to_svg_dict (\<lambda>f. ''<svg/>'') (\<lambda>b n. rev b)
         \<lparr>size_inches = None, suptitle = None, artists = ()\<rparr>
         ''plot.svg'' None None 1 None None None"
proof -
  have h: "(3::int) \<noteq> 0" by simp
  have n2: "(3::int) \<noteq> 2" by simp
  note r = mplfig_to_svg_dict_any_mode [OF h, where savefig = "\<lambda>f. ''<svg/>''"
      and fc = "\<lambda>b n. rev b"
      and fig = "\<lparr>size_inches = None, suptitle = None, artists = ()\<rparr>"
      and fn = "''plot.svg''" and t = None and tags = None and w = None and h = None
      and fit = None]
  from r have a: "map_of (mplfig_to_svg_dict (\<lambda>f. ''<svg/>'') (\<lambda>b n. rev b)
         \<lparr>size_inches = None, suptitle = None, artists = ()\<rparr>
         ''plot.svg'' None None 3 None None None) ''svg''
       = Some (PyBytes (rev (encode_utf8 ''<svg/>'')))"
    by blast
  from r n2 have b: "map_of (mplfig_to_svg_dict (\<lambda>f. ''<svg/>'') (\<lambda>b n. rev b)
         \<lparr>size_inches = None, suptitle = None, artists = ()\<rparr>
         ''plot.svg'' None None 3 None None None) ''svg_str'' = None"
    by (metis option.exhaust)
  from r n2 have c: "mplfig_to_svg_dict (\<lambda>f. ''<svg/>'') (\<lambda>b n. rev b)
         \<lparr>size_inches = None, suptitle = None, artists = ()\<rparr>
         ''plot.svg'' None None 3 None None None
       = mplfig_to_svg_dict (\<lambda>f. ''<svg/>'') (\<lambda>b n. rev b)
         \<lparr>size_inches = None, suptitle = None, artists = ()\<rparr>
         ''plot.svg'' None None 1 None None None"
    by blast
  from h a b c show ?thesis by blast
qed

text \<open>
  C7: on a record whose \<open>svg\<close> is a string or a byte sequence, applying
  \<open>decompress_svg_dict\<close> twice gives what applying it once gives (an error of the
  decompression collaborator included), and on a record whose \<open>svg\<close> is already a
  string one application returns the record unchanged.
\<close>

theorem decompress_svg_dict_idempotent:
  "svg_is_str d \<or> svg_is_bytes d \<Longrightarrow>
     (case decompress_svg_dict dec (PyDict d) of
        Inl e \<Rightarrow> Inl e
      | Inr v \<Rightarrow> decompress_svg_dict dec v) = decompress_svg_dict dec (PyDict d)
     \<and> (svg_is_str d \<longrightarrow> decompress_svg_dict dec (PyDict d) = Inr (PyDict d))"
  by (auto simp: decompress_svg_dict_def svg_is_str_def svg_is_bytes_def update_conv'
           split: option.splits pyval.splits sum.splits)

theorem decompress_svg_dict_idempotent_witness:
  "svg_is_bytes [(''name'', PyStr ''p''), (''svg'', PyBytes [60, 62])]
   \<and> decompress_svg_dict (\<lambda>b. Inr (decode_utf8 (rev b)))
        (PyDict [(''name'', PyStr ''p''), (''svg'', PyBytes [60, 62])])
       = Inr (PyDict [(''name'', PyStr ''p''), (''svg'', PyStr ''><'')])
   \<and> (case decompress_svg_dict (\<lambda>b. Inr (decode_utf8 (rev b)))
          (PyDict [(''name'', PyStr ''p''), (''svg'', PyBytes [60, 62])]) of
        Inl e \<Rightarrow> Inl e
      | Inr v \<Rightarrow> decompress_svg_dict (\<lambda>b. Inr (decode_utf8 (rev b))) v)
       = Inr (PyDict [(''name'', PyStr ''p''), (''svg'', PyStr ''><'')])
   \<and> svg_is_str [(''name'', PyStr ''p''), (''svg'', PyStr ''><'')]
   \<and> decompress_svg_dict (\<lambda>b. Inr (decode_utf8 (rev b)))
        (PyDict [(''name'', PyStr ''p''), (''svg'', PyStr ''><'')])
       = Inr (PyDict [(''name'', PyStr ''p''), (''svg'', PyStr ''><'')])"
proof -
  let ?dec = "\<lambda>b::bytes. (Inr (decode_utf8 (rev b)) :: error + string)"
  let ?db = "[(''name'', PyStr ''p''), (''svg'', PyBytes [60, 62])]"
  let ?ds = "[(''name'', PyStr ''p''), (''svg'', PyStr ''><'')]"
  have hb: "svg_is_bytes ?db" by (simp add: svg_is_bytes_def)
  have hs: "svg_is_str ?ds" by (simp add: svg_is_str_def)
  have once: "decompress_svg_dict ?dec (PyDict ?db) = Inr (PyDict ?ds)"
  proof -
    have "decode_utf8 [62, 60] = ''><''" by code_simp
    then show ?thesis by (simp add: decompress_svg_dict_def)
  qed
  from decompress_svg_dict_idempotent [of ?db ?dec] hb
  have twice: "(case decompress_svg_dict ?dec (PyDict ?db) of
                  Inl e \<Rightarrow> Inl e
                | Inr v \<Rightarrow> decompress_svg_dict ?dec v) = decompress_svg_dict ?dec (PyDict ?db)"
    by blast
  from decompress_svg_dict_idempotent [of ?ds ?dec] hs
  have noop: "decompress_svg_dict ?dec (PyDict ?ds) = Inr (PyDict ?ds)"
    by blast
  from hb hs once twice noop show ?thesis by simp
qed

text \<open>
  C8: on every value that is not a dictionary (a string, a number, \<open>None\<close>, ...)
  \<open>decompress_svg_dict\<close> raises \<open>ValueError\<close>, before it looks at the value.
\<close>

theorem decompress_svg_dict_not_dict:
  "\<not> is_dict v \<Longrightarrow>
     decompress_svg_dict dec v
       = Inl (ValueError ''Parameter svg_dict must be an instance of dict'')"
  by (cases v) (simp_all add: decompress_svg_dict_def)

theorem decompress_svg_dict_not_dict_witness:
  "\<not> is_dict (PyStr ''<svg/>'') \<and> \<not> is_dict (PyInt 3) \<and> \<not> is_dict PyNone
   \<and> decompress_svg_dict (\<lambda>b. Inr (decode_utf8 b)) (PyStr ''<svg/>'')
       = Inl (ValueError ''Parameter svg_dict must be an instance of dict'')
   \<and> decompress_svg_dict (\<lambda>b. Inr (decode_utf8 b)) (PyInt 3)
       = Inl (ValueError ''Parameter svg_dict must be an instance of dict'')
   \<and> decompress_svg_dict (\<lambda>b. Inr (decode_utf8 b)) PyNone
       = Inl (ValueError ''Parameter svg_dict must be an instance of dict'')"
  using decompress_svg_dict_not_dict [of "PyStr ''<svg/>''" "\<lambda>b. Inr (decode_utf8 b)"]
        decompress_svg_dict_not_dict [of "PyInt 3" "\<lambda>b. Inr (decode_utf8 b)"]
        decompress_svg_dict_not_dict [of PyNone "\<lambda>b. Inr (decode_utf8 b)"]
  by simp

section \<open>Properties of the rasteriser\<close>

text \<open>
  C9: when rasterisation succeeds with PNG bytes \<open>png\<close>, \<open>to_png\<close> returns exactly
  \<open><img src="data:image/png;base64,\<close> followed by the base64 encoding of \<open>png\<close> and
  \<open>">\<close>; so the result starts with that prefix and ends with \<open>">\<close>.
\<close>

theorem to_png_form:
  "svg2png content dpi = Inr png \<Longrightarrow>
     \<exists>r. to_png svg2png content dpi = Inr r
       \<and> r = img_prefix @ decode_utf8 (b64encode png) @ img_suffix
       \<and> prefix img_prefix r \<and> suffix img_suffix r"
  by (simp add: to_png_def Image_data_def suffix_def)

theorem to_png_form_witness:
  "(\<lambda>c d. Inr [137, 80, 78, 71]) ''<svg/>'' (96::int) = (Inr [137, 80, 78, 71] :: error + bytes)
   \<and> to_png (\<lambda>c d. Inr [137, 80, 78, 71]) ''<svg/>'' 96
       = Inr (''<img src='' @ [CHR 0x22] @ ''data:image/png;base64,iVBORw=='' @ [CHR 0x22] @ ''>'')"
proof -
  let ?svg2png = "\<lambda>(c::string) (d::int). (Inr [137, 80, 78, 71] :: error + bytes)"
  have h: "?svg2png ''<svg/>'' 96 = Inr [137, 80, 78, 71]" by simp
  have enc: "decode_utf8 (b64encode [137, 80, 78, 71]) = ''iVBORw==''" by code_simp
  from to_png_form [of ?svg2png "''<svg/>''" 96, OF h]
  have "to_png ?svg2png ''<svg/>'' 96
          = Inr (img_prefix @ decode_utf8 (b64encode [137, 80, 78, 71]) @ img_suffix)"
    by blast
  with h enc show ?thesis by (simp add: img_prefix_def img_suffix_def)
qed

section \<open>Properties of the composer\<close>

lemma pt_float_Some: "pt_float so = Inr v \<Longrightarrow> \<exists>s. so = Some s"
  by (cases so) (simp_all add: pt_float_def)

text \<open>
  The figure that \<open>stack_figs\<close> builds from two figures that declare sizes in points.
\<close>

lemma stack_figs_built:
  assumes "declares_pt fig1 w1 h1" "declares_pt fig2 w2 h2"
  shows "\<exists>fig. stack_figs fig1 fig2 hz sep = Inr fig
    \<and> root_get fig ''width'' =
         (if hz then Some (float_str (w1 + w2) @ ''pt'')
          else if w1 > w2 then root_get fig1 ''width'' else root_get fig2 ''width'')
    \<and> root_get fig ''height'' =
         (if hz then (if h1 > h2 then root_get fig1 ''height'' else root_get fig2 ''height'')
          else Some (float_str (h1 + h2) @ ''pt''))
    \<and> root_get fig ''viewBox'' =
         Some (''0 0 '' @ pct_s (root_get fig ''width'') @ '' '' @ pct_s (root_get fig ''height''))
    \<and> lines_of fig =
         (if sep
          then [if hz then Line [(PyF w1, PyI 0), (PyF w1, PyF (max h1 h2))]
                else Line [(PyI 0, PyF h1), (PyF (max w1 w2), PyF h1)]]
          else [])"
proof -
  from assms obtain sw1 sh1 sw2 sh2 where
    s: "root_get fig1 ''width'' = Some sw1" "root_get fig1 ''height'' = Some sh1"
       "root_get fig2 ''width'' = Some sw2" "root_get fig2 ''height'' = Some sh2"
    unfolding declares_pt_def by (auto dest!: pt_float_Some)
  with assms have p: "pt_float (Some sw1) = Inr w1" "pt_float (Some sh1) = Inr h1"
       "pt_float (Some sw2) = Inr w2" "pt_float (Some sh2) = Inr h2"
    unfolding declares_pt_def by auto
  show ?thesis
    using s p
    by (simp add: stack_figs_def get_size_def bind_err_def Let_def
          root_get_def root_set_def update_conv' lines_of_def
          append_node_def getroot_def SVGFigure_def max_def)
qed

lemma stack_svg_parsed:
  "fromstring svg1 = Inr fig1 \<Longrightarrow> fromstring svg2 = Inr fig2 \<Longrightarrow>
     stack_svg fromstring to_str svg1 svg2 hz sep
       = bind_err (stack_figs fig1 fig2 hz sep) (\<lambda>fig. Inr (to_str fig))"
  by (simp add: stack_svg_def bind_err_def)

lemma scenario_declares:
  "declares_pt doc_100x50 100 50" "declares_pt doc_80x60 80 60"
  by (simp_all add: declares_pt_def doc_100x50_def doc_80x60_def root_get_def pt_float_def)
     code_simp+

lemma scenario_parses:
  "parse_scenario ''doc1'' = Inr doc_100x50" "parse_scenario ''doc2'' = Inr doc_80x60"
  by (simp_all add: parse_scenario_def)

lemma scenario_vertical:
  "stack_figs doc_100x50 doc_80x60 False False =
     Inr \<lparr>attrib = [(''version'', ''1.1''), (''height'', ''110.0pt''), (''width'', ''100pt''),
                    (''viewBox'', ''0 0 100pt 110.0pt'')],
          children = [Group [Parsed ''rect''] [],
                      Group [Parsed ''circle''] [MoveTo (PyI 0) (PyF 50)]]\<rparr>"
  by code_simp

lemma scenario_horizontal:
  "stack_figs doc_100x50 doc_80x60 True False =
     Inr \<lparr>attrib = [(''version'', ''1.1''), (''height'', ''60pt''), (''width'', ''180.0pt''),
                    (''viewBox'', ''0 0 180.0pt 60pt'')],
          children = [Group [Parsed ''rect''] [],
                      Group [Parsed ''circle''] [MoveTo (PyF 100) (PyI 0)]]\<rparr>"
  by code_simp





text \<open>
  C2 as stated fails on the scenario: the \<open>viewBox\<close> is built from the \<open>width\<close> and
  \<open>height\<close> attributes as they were set, so it carries their \<open>pt\<close>; stripping \<open>pt\<close>
  changes it.
\<close>

theorem stack_svg_viewBox_counterexample:
  "attr_of ''viewBox'' (stack_figs doc_100x50 doc_80x60 False False)
     = Some ''0 0 100pt 110.0pt''
   \<and> py_replace ''pt'' [] ''0 0 100pt 110.0pt'' \<noteq> ''0 0 100pt 110.0pt''"
  by (simp add: scenario_vertical root_get_def)

text \<open>
  C2, amended: the \<open>viewBox\<close> of the stacked document is \<open>0 0 <width> <height>\<close>,
  where \<open><width>\<close> and \<open><height>\<close> are the strings of its \<open>width\<close> and \<open>height\<close>
  attributes, unit suffix included.
\<close>

theorem stack_svg_viewBox:
  assumes "fromstring svg1 = Inr fig1" and "fromstring svg2 = Inr fig2"
    and "declares_pt fig1 w1 h1" and "declares_pt fig2 w2 h2"
  shows "stack_svg fromstring to_str svg1 svg2 hz sep
           = bind_err (stack_figs fig1 fig2 hz sep) (\<lambda>fig. Inr (to_str fig))
       \<and> (\<exists>W H. attr_of ''width'' (stack_figs fig1 fig2 hz sep) = Some W
              \<and> attr_of ''height'' (stack_figs fig1 fig2 hz sep) = Some H
              \<and> attr_of ''viewBox'' (stack_figs fig1 fig2 hz sep)
                  = Some (''0 0 '' @ W @ '' '' @ H))"
proof -
  from stack_figs_built [OF assms(3,4), of hz sep] obtain fig where
    f: "stack_figs fig1 fig2 hz sep = Inr fig"
    and w: "root_get fig ''width'' =
         (if hz then Some (float_str (w1 + w2) @ ''pt'')
          else if w1 > w2 then root_get fig1 ''width'' else root_get fig2 ''width'')"
    and h: "root_get fig ''height'' =
         (if hz then (if h1 > h2 then root_get fig1 ''height'' else root_get fig2 ''height'')
          else Some (float_str (h1 + h2) @ ''pt''))"
    and v: "root_get fig ''viewBox'' =
         Some (''0 0 '' @ pct_s (root_get fig ''width'') @ '' '' @ pct_s (root_get fig ''height''))"
    by blast
  from assms(3,4) obtain sw1 sh1 sw2 sh2 where
    s: "root_get fig1 ''width'' = Some sw1" "root_get fig1 ''height'' = Some sh1"
       "root_get fig2 ''width'' = Some sw2" "root_get fig2 ''height'' = Some sh2"
    unfolding declares_pt_def by (auto dest!: pt_float_Some)
  from w s obtain W where W: "root_get fig ''width'' = Some W"
    by (auto split: if_splits)
  from h s obtain H where H: "root_get fig ''height'' = Some H"
    by (auto split: if_splits)
  have sv: "stack_svg fromstring to_str svg1 svg2 hz sep
           = bind_err (stack_figs fig1 fig2 hz sep) (\<lambda>fig. Inr (to_str fig))"
    by (rule stack_svg_parsed [OF assms(1,2)])
  from sv f v W H show ?thesis by simp
qed

theorem stack_svg_viewBox_witness:
  "parse_scenario ''doc1'' = Inr doc_100x50 \<and> parse_scenario ''doc2'' = Inr doc_80x60
   \<and> declares_pt doc_100x50 100 50 \<and> declares_pt doc_80x60 80 60
   \<and> (\<exists>W H. attr_of ''width'' (stack_figs doc_100x50 doc_80x60 True False) = Some W
          \<and> attr_of ''height'' (stack_figs doc_100x50 doc_80x60 True False) = Some H
          \<and> attr_of ''viewBox'' (stack_figs doc_100x50 doc_80x60 True False)
              = Some (''0 0 '' @ W @ '' '' @ H))
   \<and> attr_of ''viewBox'' (stack_figs doc_100x50 doc_80x60 True False)
       = Some ''0 0 180.0pt 60pt''"
proof -
  note r = stack_svg_viewBox [of parse_scenario "''doc1''" doc_100x50 "''doc2''" doc_80x60
      100 50 80 60 attrs_to_str True False,
      OF scenario_parses(1) scenario_parses(2) scenario_declares(1) scenario_declares(2)]
  have e: "attr_of ''viewBox'' (stack_figs doc_100x50 doc_80x60 True False)
       = Some ''0 0 180.0pt 60pt''"
    by (simp add: scenario_horizontal root_get_def)
  from r e scenario_parses scenario_declares show ?thesis by blast
qed

text \<open>
  C3: without \<open>separator\<close> no line is appended; with it exactly one: in the horizontal
  layout the line from \<open>(w1, 0)\<close> to \<open>(w1, max h1 h2)\<close>, in the vertical layout the line
  from \<open>(0, h1)\<close> to \<open>(max w1 w2, h1)\<close>.
\<close>

theorem stack_svg_separator:
  assumes "fromstring svg1 = Inr fig1" and "fromstring svg2 = Inr fig2"
    and "declares_pt fig1 w1 h1" and "declares_pt fig2 w2 h2"
  shows "stack_svg fromstring to_str svg1 svg2 hz sep
           = bind_err (stack_figs fig1 fig2 hz sep) (\<lambda>fig. Inr (to_str fig))
       \<and> result_lines (stack_figs fig1 fig2 hz sep) =
           Some (if sep
                 then [if hz then Line [(PyF w1, PyI 0), (PyF w1, PyF (max h1 h2))]
                       else Line [(PyI 0, PyF h1), (PyF (max w1 w2), PyF h1)]]
                 else [])"
proof -
  from stack_figs_built [OF assms(3,4), of hz sep] obtain fig where
    f: "stack_figs fig1 fig2 hz sep = Inr fig"
    and l: "lines_of fig =
         (if sep
          then [if hz then Line [(PyF w1, PyI 0), (PyF w1, PyF (max h1 h2))]
                else Line [(PyI 0, PyF h1), (PyF (max w1 w2), PyF h1)]]
          else [])"
    by blast
  have sv: "stack_svg fromstring to_str svg1 svg2 hz sep
           = bind_err (stack_figs fig1 fig2 hz sep) (\<lambda>fig. Inr (to_str fig))"
    by (rule stack_svg_parsed [OF assms(1,2)])
  from sv f l show ?thesis by simp
qed

theorem stack_svg_separator_witness:
  "parse_scenario ''doc1'' = Inr doc_100x50 \<and> parse_scenario ''doc2'' = Inr doc_80x60
   \<and> declares_pt doc_100x50 100 50 \<and> declares_pt doc_80x60 80 60
   \<and> result_lines (stack_figs doc_100x50 doc_80x60 True True)
       = Some [Line [(PyF 100, PyI 0), (PyF 100, PyF 60)]]
   \<and> result_lines (stack_figs doc_100x50 doc_80x60 False True)
       = Some [Line [(PyI 0, PyF 50), (PyF 100, PyF 50)]]
   \<and> result_lines (stack_figs doc_100x50 doc_80x60 True False) = Some []
   \<and> result_lines (stack_figs doc_100x50 doc_80x60 False False) = Some []"
proof -
  have m: "max (100::rat) 80 = 100" "max (50::rat) 60 = 60" by simp_all
  note r = stack_svg_separator [of parse_scenario "''doc1''" doc_100x50 "''doc2''" doc_80x60
      100 50 80 60 attrs_to_str,
      OF scenario_parses(1) scenario_parses(2) scenario_declares(1) scenario_declares(2)]
  from r [of True True] m have a: "result_lines (stack_figs doc_100x50 doc_80x60 True True)
       = Some [Line [(PyF 100, PyI 0), (PyF 100, PyF 60)]]"
    by simp
  from r [of False True] m have b: "result_lines (stack_figs doc_100x50 doc_80x60 False True)
       = Some [Line [(PyI 0, PyF 50), (PyF 100, PyF 50)]]"
    by simp
  from r [of True False] have c: "result_lines (stack_figs doc_100x50 doc_80x60 True False) = Some []"
    by simp
  from r [of False False] have d: "result_lines (stack_figs doc_100x50 doc_80x60 False False) = Some []"
    by simp
  from a b c d scenario_parses scenario_declares show ?thesis by simp
qed

section \<open>Properties of the rescaler\<close>















text \<open>
  The sizes of the new figure depend on the attributes of the original only, so a
  figure parsed back from the serialised result of a first call stands for that result.
\<close>

lemma rescale_fig_attrib:
  fixes d d' :: "'x svgfigure"
  shows "attrib d' = attrib d \<Longrightarrow>
     attr_of a (rescale_fig size_attr d' scale) = attr_of a (rescale_fig size_attr d scale)"
  by (auto simp: rescale_fig_def bind_err_def root_get_def append_node_def Let_def
           split: sum.splits)

lemma rescale_twice_strings:
  assumes "fromstring svg = Inr original"
    and "rescale_fig size_attr original k = Inr d1"
    and "fromstring (decode_utf8 (to_str d1)) = Inr d1'"
    and "attrib d1' = attrib d1"
  shows "rescale fromstring to_str size_attr svg k = Inr (decode_utf8 (to_str d1))"
    and "rescale fromstring to_str size_attr (decode_utf8 (to_str d1)) (1 / k)
           = bind_err (rescale_fig size_attr d1' (1 / k)) (\<lambda>f. Inr (decode_utf8 (to_str f)))"
    and "attr_of a (rescale_fig size_attr d1' (1 / k))
           = attr_of a (rescale_twice size_attr original k)"
proof -
  show "rescale fromstring to_str size_attr svg k = Inr (decode_utf8 (to_str d1))"
    using assms(1,2) by (simp add: rescale_def bind_err_def)
  show "rescale fromstring to_str size_attr (decode_utf8 (to_str d1)) (1 / k)
           = bind_err (rescale_fig size_attr d1' (1 / k)) (\<lambda>f. Inr (decode_utf8 (to_str f)))"
    using assms(3) by (simp add: rescale_def bind_err_def)
  show "attr_of a (rescale_fig size_attr d1' (1 / k))
           = attr_of a (rescale_twice size_attr original k)"
    using rescale_fig_attrib [OF assms(4), of a size_attr "1 / k"] assms(2)
    by (simp add: rescale_twice_def bind_err_def)
qed





text \<open>
  The size \<open>600px\<close>, which the comment in \<open>rescale\<close> gives as its example, has no
  point: the whole string goes to \<open>float\<close>, which raises.
\<close>

lemma rescale_600px_raises:
  "rescale_fig size_attr doc_600px scale = Inl (ValueError ''600px'')"
proof -
  have "split_float (root_get doc_600px ''width'') = Inl (ValueError ''600px'')"
    by (simp add: doc_600px_def root_get_def) code_simp
  then show ?thesis by (simp add: rescale_fig_def bind_err_def)
qed









end
